theory Spec2Isabelle
  imports Main "HOL-Library.Word"
begin

section \<open>Common definitions\<close>

type_synonym u8 = "8 word"
type_synonym u32 = "32 word"

text \<open>
  The ways in which a call can fail to return a value.
  \<^item> \<open>OutOfRange\<close>: a \<^verbatim>\<open>std::out_of_range\<close> exception (thrown by \<^verbatim>\<open>Map::at\<close>,
    \<^verbatim>\<open>std::vector::at\<close> and \<^verbatim>\<open>std::stoul\<close>);
  \<^item> \<open>Terminated\<close>: \<^verbatim>\<open>std::terminate\<close>, reached when an exception leaves a
    \<^verbatim>\<open>noexcept\<close> function;
  \<^item> \<open>AssertionFailed\<close>: a failed \<^verbatim>\<open>assert\<close> (the program is modelled as built
    without \<^verbatim>\<open>NDEBUG\<close>);
  \<^item> \<open>UndefinedBehaviour\<close>: an unchecked read or write outside a container.
\<close>

datatype error = OutOfRange | Terminated | AssertionFailed | UndefinedBehaviour

section \<open>Day 1: the dial (\<^verbatim>\<open>src/day1/day1.cpp\<close>)\<close>

record Dial =
  m_zero_count :: u32
  m_passes_zero_count :: u32
  m_position :: u32

record Transform =
  is_valid :: bool
  direction :: bool
  size_u32 :: u32

text \<open>The default member initialisers of \<^verbatim>\<open>Dial\<close>: both counters 0, position 50.\<close>

definition Dial_default :: Dial where
  "Dial_default = \<lparr>m_zero_count = 0, m_passes_zero_count = 0, m_position = 50\<rparr>"

text \<open>The setter \<^verbatim>\<open>void position(const std::uint32_t)\<close>.\<close>

definition set_position :: "u32 \<Rightarrow> Dial \<Rightarrow> Dial" where
  "set_position p d = d\<lparr>m_position := p\<rparr>"

subsection \<open>Parsing a rotation token\<close>

definition is_digit :: "char \<Rightarrow> bool" where
  "is_digit c = (48 \<le> (of_char c :: nat) \<and> (of_char c :: nat) \<le> 57)"

definition digit_value :: "char \<Rightarrow> nat" where
  "digit_value c = (of_char c :: nat) - 48"

text \<open>
  \<^verbatim>\<open>std::regex_match\<close> against \<^verbatim>\<open>^([LR])([0-9]+)$\<close>: the whole token is one of
  the two letters followed by one or more decimal digits. The result holds the two
  capture groups.
\<close>

definition regex_match :: "string \<Rightarrow> (char \<times> string) option" where
  "regex_match s =
     (case s of
        [] \<Rightarrow> None
      | c # ds \<Rightarrow>
          if (c = CHR ''L'' \<or> c = CHR ''R'') \<and> ds \<noteq> [] \<and> list_all is_digit ds
          then Some (c, ds) else None)"

text \<open>The number a string of decimal digits denotes.\<close>

definition decimal :: "string \<Rightarrow> nat" where
  "decimal ds = foldl (\<lambda>a c. 10 * a + digit_value c) 0 ds"

text \<open>
  \<^verbatim>\<open>std::stoul\<close> on a string of digits, with a 64-bit \<^verbatim>\<open>unsigned long\<close>: it throws
  \<^verbatim>\<open>std::out_of_range\<close> when the number does not fit.
\<close>

definition stoul :: "string \<Rightarrow> error + nat" where
  "stoul ds = (if decimal ds < 2 ^ 64 then Inr (decimal ds) else Inl OutOfRange)"

text \<open>
  \<^verbatim>\<open>is_valid_transform\<close> is \<^verbatim>\<open>noexcept\<close>, so the exception of \<^verbatim>\<open>std::stoul\<close> ends
  the program. The \<^verbatim>\<open>static_cast<std::uint32_t>\<close> keeps the low 32 bits.
\<close>

definition is_valid_transform :: "string \<Rightarrow> error + Transform" where
  "is_valid_transform raw =
     (case regex_match raw of
        Some (c, ds) \<Rightarrow>
          (case stoul ds of
             Inl e \<Rightarrow> Inl Terminated
           | Inr v \<Rightarrow>
               Inr \<lparr>is_valid = True, direction = (c = CHR ''R''), size_u32 = of_nat v\<rparr>)
      | None \<Rightarrow> Inr \<lparr>is_valid = False, direction = False, size_u32 = 0\<rparr>)"

subsection \<open>Counting passes of zero\<close>

definition passes_zero :: "Dial \<Rightarrow> Transform \<Rightarrow> bool" where
  "passes_zero d t =
     (size_u32 t \<ge> (if direction t then 100 - m_position d else m_position d))"

definition of_bool_u32 :: "bool \<Rightarrow> u32" where
  "of_bool_u32 b = (if b then 1 else 0)"

definition zero_passes :: "Dial \<Rightarrow> Transform \<Rightarrow> u32" where
  "zero_passes d t =
     (if \<not> passes_zero d t then 0
      else
        let divisor = size_u32 t div 100;
            remainder = size_u32 t mod 100
        in divisor
           + of_bool_u32 (passes_zero d
               \<lparr>is_valid = is_valid t, direction = direction t, size_u32 = remainder\<rparr>)
           - of_bool_u32 (m_position d = 0 \<and> \<not> direction t))"

subsection \<open>Applying rotations\<close>

text \<open>
  \<^verbatim>\<open>Dial::transform(std::string_view)\<close>: the result is the returned position together
  with the dial after the call.
\<close>

definition transform :: "string \<Rightarrow> Dial \<Rightarrow> error + (u32 \<times> Dial)" where
  "transform raw_transform d =
     (case is_valid_transform raw_transform of
        Inl e \<Rightarrow> Inl e
      | Inr t \<Rightarrow>
          if is_valid t then
            let d1 = d\<lparr>m_passes_zero_count := m_passes_zero_count d + zero_passes d t\<rparr>;
                d2 = d1\<lparr>m_position := m_position d1
                        + (if direction t then size_u32 t mod 100
                           else 100 - (size_u32 t mod 100))\<rparr>;
                d3 = d2\<lparr>m_position := m_position d2 mod 100\<rparr>;
                d4 = (if m_position d3 = 0
                      then d3\<lparr>m_zero_count := m_zero_count d3 + 1\<rparr> else d3)
            in Inr (m_position d4, d4)
          else Inr (m_position d, d))"

text \<open>
  \<^verbatim>\<open>Dial::transform(const std::vector<std::string_view> &)\<close>: every token in order;
  the result is the final position and dial.
\<close>

fun transform_vec :: "string list \<Rightarrow> Dial \<Rightarrow> error + (u32 \<times> Dial)" where
  "transform_vec [] d = Inr (m_position d, d)"
| "transform_vec (raw_transform # rest) d =
     (case transform raw_transform d of
        Inl e \<Rightarrow> Inl e
      | Inr (p, d') \<Rightarrow> transform_vec rest d')"

text \<open>
  The loop of \<^verbatim>\<open>verify\<close>: the position read after each rotation, and the dial at
  the end.
\<close>

fun positions_after :: "string list \<Rightarrow> Dial \<Rightarrow> error + (u32 list \<times> Dial)" where
  "positions_after [] d = Inr ([], d)"
| "positions_after (raw_transform # rest) d =
     (case transform raw_transform d of
        Inl e \<Rightarrow> Inl e
      | Inr (p, d') \<Rightarrow>
          (case positions_after rest d' of
             Inl e \<Rightarrow> Inl e
           | Inr (ps, d'') \<Rightarrow> Inr (m_position d' # ps, d'')))"

text \<open>
  A token that matches the pattern and whose number does not fit \<^verbatim>\<open>unsigned long\<close>:
  the only tokens on which \<^verbatim>\<open>std::stoul\<close> throws.
\<close>

definition exceeds_unsigned_long :: "string \<Rightarrow> bool" where
  "exceeds_unsigned_long raw =
     (case regex_match raw of None \<Rightarrow> False | Some (c, ds) \<Rightarrow> 2 ^ 64 \<le> decimal ds)"

section \<open>Day 4: the map of paper rolls (\<^verbatim>\<open>src/day4/day4.cpp\<close>)\<close>

datatype ObjType = NONE | PAPER | ACCESSIBLE_PAPER | INVALID

record Map =
  m_width :: u32
  m_height :: u32
  m_map :: "ObjType list"
  m_accessible_map :: "ObjType list"
  m_accessible_paper :: u32

text \<open>Running a step that may fail after one that may fail.\<close>

definition and_then :: "error + 'a \<Rightarrow> ('a \<Rightarrow> error + 'b) \<Rightarrow> error + 'b" where
  "and_then r f = (case r of Inl e \<Rightarrow> Inl e | Inr x \<Rightarrow> f x)"

text \<open>A loop whose body may fail: the first failure ends it.\<close>

fun for_each :: "('x \<Rightarrow> 's \<Rightarrow> error + 's) \<Rightarrow> 'x list \<Rightarrow> 's \<Rightarrow> error + 's" where
  "for_each body [] s = Inr s"
| "for_each body (x # xs) s =
     (case body x s of Inl e \<Rightarrow> Inl e | Inr s' \<Rightarrow> for_each body xs s')"

subsection \<open>Reading the raw text\<close>

text \<open>
  \<^verbatim>\<open>std::isspace\<close> in the default locale: space and the characters 9 to 13 (tab,
  newline, vertical tab, form feed, carriage return). No character above 127 is
  whitespace.
\<close>

definition isspace :: "char \<Rightarrow> bool" where
  "isspace c = ((of_char c :: nat) = 32 \<or> (9 \<le> (of_char c :: nat) \<and> (of_char c :: nat) \<le> 13))"

definition newline :: char where
  "newline = CHR 0x0A"

text \<open>
  \<^verbatim>\<open>std::views::split\<close> on one character: the pieces between the separators, a last
  empty piece after a trailing separator, and no piece at all for empty text.
\<close>

fun split_from :: "char \<Rightarrow> string \<Rightarrow> string \<Rightarrow> string list" where
  "split_from sep piece [] = [rev piece]"
| "split_from sep piece (c # cs) =
     (if c = sep then rev piece # split_from sep [] cs else split_from sep (c # piece) cs)"

definition split :: "char \<Rightarrow> string \<Rightarrow> string list" where
  "split sep s = (if s = [] then [] else split_from sep [] s)"

text \<open>\<^verbatim>\<open>std::views::pairwise_transform\<close>: the function applied to each adjacent pair.\<close>

definition pairwise_transform :: "('a \<Rightarrow> 'a \<Rightarrow> 'b) \<Rightarrow> 'a list \<Rightarrow> 'b list" where
  "pairwise_transform f xs = map (\<lambda>(l, r). f l r) (zip xs (tl xs))"

text \<open>
  \<^verbatim>\<open>measure_dimensions\<close>. \<^verbatim>\<open>back()\<close> of an empty view is undefined; each \<^verbatim>\<open>assert\<close>
  is a failure. The height counts every whitespace character; the width is the length of
  the first non-empty line. Both are 32-bit.
\<close>

definition measure_dimensions :: "string \<Rightarrow> error + (u32 \<times> u32)" where
  "measure_dimensions unprocessed_map =
     (if unprocessed_map = [] then Inl UndefinedBehaviour
      else
        let last_char_newline = (last unprocessed_map = newline);
            height = fold (\<lambda>c sum. sum + 1) (filter isspace unprocessed_map) (0 :: u32)
                     + of_bool_u32 (\<not> last_char_newline)
        in if \<not> height > 0 then Inl AssertionFailed
           else
             let line_lengths =
                   map (\<lambda>rng. of_nat (length rng) :: u32)
                     (filter (\<lambda>rng. length rng \<noteq> 0) (split newline unprocessed_map))
             in if line_lengths = [] then Inl AssertionFailed
                else if \<not> list_all (\<lambda>result. result = True)
                            (pairwise_transform (\<lambda>left right. left = right) line_lengths)
                then Inl AssertionFailed
                else Inr (hd line_lengths, height))"

definition obj_of_char :: "char \<Rightarrow> ObjType" where
  "obj_of_char c = (if c = CHR ''.'' then NONE else if c = CHR ''@'' then PAPER else INVALID)"

text \<open>
  \<^verbatim>\<open>initialise_map\<close>: one cell for each character that is not whitespace. The only
  check is the \<^verbatim>\<open>assert\<close> on the number of cells, against the 32-bit product.
\<close>

definition initialise_map :: "u32 \<Rightarrow> u32 \<Rightarrow> string \<Rightarrow> error + ObjType list" where
  "initialise_map width height map_data =
     (let map = map obj_of_char (filter (\<lambda>c. \<not> isspace c) map_data)
      in if length map = unat (width * height) then Inr map else Inl AssertionFailed)"

subsection \<open>Access to cells\<close>

text \<open>
  \<^verbatim>\<open>Map::at\<close>: both coordinates are checked, then \<^verbatim>\<open>std::vector::at\<close> checks the index.
\<close>

definition at :: "Map \<Rightarrow> u32 \<Rightarrow> u32 \<Rightarrow> error + ObjType" where
  "at m i j =
     (if i \<ge> m_width m then Inl OutOfRange
      else if j \<ge> m_height m then Inl OutOfRange
      else
        let k = unat (j * m_width m + i)
        in if k < length (m_map m) then Inr (m_map m ! k) else Inl OutOfRange)"

text \<open>
  The expression \<^verbatim>\<open>m_map[i, j]\<close> subscripts the \<^verbatim>\<open>std::vector\<close> member, not the
  \<^verbatim>\<open>Map\<close> (whose own two-argument subscript computes \<open>j * m_width + i\<close>). A vector has
  no subscript operator of two arguments, so \<open>i, j\<close> is the comma expression, whose value
  is \<open>j\<close>: before C++23 by the grammar, and in C++23 mode because GCC falls back to the
  comma expression, with a warning, when no two-argument operator exists. The element
  read is \<^verbatim>\<open>m_map[j]\<close>, and the read is unchecked.
\<close>

definition m_map_subscript :: "Map \<Rightarrow> u32 \<Rightarrow> u32 \<Rightarrow> error + ObjType" where
  "m_map_subscript m i j =
     (if unat j < length (m_map m) then Inr (m_map m ! unat j) else Inl UndefinedBehaviour)"

definition is_paper :: "Map \<Rightarrow> u32 \<Rightarrow> u32 \<Rightarrow> error + bool" where
  "is_paper m i j = and_then (m_map_subscript m i j) (\<lambda>c. Inr (c = PAPER))"

subsection \<open>The neighbour mask\<close>

text \<open>
  \<^verbatim>\<open>std::bitset<8>\<close> is an 8-bit word. Its constructor keeps the low 8 bits of the
  number given, and the literal in the source is the decimal number 11111111.
\<close>

definition initial_mask :: u8 where
  "initial_mask = 11111111"

definition assign :: "nat \<Rightarrow> bool \<Rightarrow> u8 \<Rightarrow> u8" where
  "assign n b bits = (if b then set_bit n bits else unset_bit n bits)"

definition count :: "u8 \<Rightarrow> nat" where
  "count bits = length (filter (bit bits) [0..<8])"

text \<open>
  One line \<^verbatim>\<open>mask[n] = mask[n] ? is_paper(i, j) : false\<close>: the cell is read only when
  the bit is set.
\<close>

definition keep_if_paper :: "Map \<Rightarrow> nat \<Rightarrow> u32 \<Rightarrow> u32 \<Rightarrow> u8 \<Rightarrow> error + u8" where
  "keep_if_paper m n i j bits =
     (if bit bits n then and_then (is_paper m i j) (\<lambda>b. Inr (assign n b bits))
      else Inr (assign n False bits))"

definition is_accessible_paper :: "Map \<Rightarrow> u32 \<Rightarrow> u32 \<Rightarrow> error + bool" where
  "is_accessible_paper m i j =
     and_then (at m i j) (\<lambda>c.
       if c \<noteq> PAPER then Inr False
       else
         let valid_position_mask = initial_mask;
             max_i = m_width m - 1;
             valid_position_mask =
               (if i = 0 then assign 5 False (assign 3 False (assign 0 False valid_position_mask))
                else if i = max_i
                then assign 7 False (assign 4 False (assign 2 False valid_position_mask))
                else valid_position_mask);
             max_j = m_height m - 1;
             valid_position_mask =
               (if j = 0 then assign 2 False (assign 1 False (assign 0 False valid_position_mask))
                else if j = max_j
                then assign 7 False (assign 6 False (assign 5 False valid_position_mask))
                else valid_position_mask)
         in and_then (keep_if_paper m 0 (i - 1) (j - 1) valid_position_mask) (\<lambda>bits.
            and_then (keep_if_paper m 1 i (j - 1) bits) (\<lambda>bits.
            and_then (keep_if_paper m 2 (i + 1) (j - 1) bits) (\<lambda>bits.
            and_then (keep_if_paper m 3 (i - 1) j bits) (\<lambda>bits.
            and_then (keep_if_paper m 4 (i + 1) j bits) (\<lambda>bits.
            and_then (keep_if_paper m 5 (i - 1) (j + 1) bits) (\<lambda>bits.
            and_then (keep_if_paper m 6 i (j + 1) bits) (\<lambda>bits.
            and_then (keep_if_paper m 7 (i + 1) (j + 1) bits) (\<lambda>bits.
            Inr (count bits < 4))))))))))"

subsection \<open>Construction\<close>

text \<open>The values a loop \<^verbatim>\<open>for (std::uint32_t i{0}; i < n; ++i)\<close> takes.\<close>

definition indices :: "u32 \<Rightarrow> u32 list" where
  "indices n = map of_nat [0..<unat n]"

text \<open>
  The body of the inner loop of \<^verbatim>\<open>process_map\<close>. The cell that is not accessible is
  copied with \<^verbatim>\<open>m_map[i, j]\<close>; the write to \<^verbatim>\<open>accessible_map\<close> is unchecked.
\<close>

definition process_cell :: "Map \<Rightarrow> u32 \<Rightarrow> u32 \<Rightarrow> ObjType list \<Rightarrow> error + ObjType list" where
  "process_cell m i j accessible_map =
     and_then (is_accessible_paper m i j) (\<lambda>accessible.
     and_then (if accessible then Inr ACCESSIBLE_PAPER else m_map_subscript m i j) (\<lambda>v.
       let k = unat (j * m_width m + i)
       in if k < length accessible_map then Inr (accessible_map[k := v])
          else Inl UndefinedBehaviour))"

definition process_map :: "Map \<Rightarrow> error + ObjType list" where
  "process_map m =
     for_each (\<lambda>i. for_each (\<lambda>j. process_cell m i j) (indices (m_height m)))
       (indices (m_width m)) (replicate (length (m_map m)) NONE)"

definition count_accessible :: "ObjType list \<Rightarrow> u32" where
  "count_accessible accessible_map =
     foldl (\<lambda>sum type. sum + of_bool_u32 (type = ACCESSIBLE_PAPER)) 0 accessible_map"

text \<open>
  The constructor \<^verbatim>\<open>Map(const std::string_view)\<close>. While \<^verbatim>\<open>process_map\<close> runs, the
  accessible map is still empty and the count is not yet set (neither is read; the count
  is written as 0 here).
\<close>

definition Map_of_string :: "string \<Rightarrow> error + Map" where
  "Map_of_string map_data =
     and_then (measure_dimensions map_data) (\<lambda>dimensions.
     and_then (initialise_map (fst dimensions) (snd dimensions) map_data) (\<lambda>cells.
       let m = \<lparr>m_width = fst dimensions, m_height = snd dimensions, m_map = cells,
                m_accessible_map = [], m_accessible_paper = 0\<rparr>
       in and_then (process_map m) (\<lambda>accessible_map.
            Inr (m\<lparr>m_accessible_map := accessible_map,
                   m_accessible_paper := count_accessible accessible_map\<rparr>))))"

subsection \<open>The test data of the source\<close>

definition test_input :: string where
  "test_input =
     ''..@@.@@@@.'' @ [newline] @
     ''@@@.@.@.@@'' @ [newline] @
     ''@@@@@.@.@@'' @ [newline] @
     ''@.@@@@..@.'' @ [newline] @
     ''@@.@@@@.@@'' @ [newline] @
     ''.@@@@@@@.@'' @ [newline] @
     ''.@.@.@.@@@'' @ [newline] @
     ''@.@@@.@@@@'' @ [newline] @
     ''.@@@@@@@@.'' @ [newline] @
     ''@.@.@@@.@.'' @ [newline]"

definition test_result_1 :: u32 where
  "test_result_1 = 13"

subsection \<open>Accessibility as the specification words it\<close>

text \<open>
  Not a translation of the source: the definition the specification gives, to compare
  \<^verbatim>\<open>is_accessible_paper\<close> with. The neighbours of a cell are the up to eight cells
  next to it horizontally, vertically and diagonally that lie inside the grid; the cell
  at column \<open>x\<close> of row \<open>y\<close> is element \<open>y * width + x\<close> of the cell array.
\<close>

definition spec_neighbours :: "Map \<Rightarrow> int \<Rightarrow> int \<Rightarrow> (int \<times> int) list" where
  "spec_neighbours m x y =
     filter (\<lambda>(x', y'). (x', y') \<noteq> (x, y)
                \<and> 0 \<le> x' \<and> x' < int (unat (m_width m))
                \<and> 0 \<le> y' \<and> y' < int (unat (m_height m)))
       (concat (map (\<lambda>dy. map (\<lambda>dx. (x + dx, y + dy)) [-1, 0, 1]) [-1, 0, 1]))"

definition spec_is_marked :: "Map \<Rightarrow> int \<Rightarrow> int \<Rightarrow> bool" where
  "spec_is_marked m x y = (m_map m ! nat (y * int (unat (m_width m)) + x) = PAPER)"

definition spec_marked_neighbours :: "Map \<Rightarrow> int \<Rightarrow> int \<Rightarrow> nat" where
  "spec_marked_neighbours m x y =
     length (filter (\<lambda>(x', y'). spec_is_marked m x' y') (spec_neighbours m x y))"

definition spec_is_accessible :: "Map \<Rightarrow> int \<Rightarrow> int \<Rightarrow> bool" where
  "spec_is_accessible m x y = (spec_is_marked m x y \<and> spec_marked_neighbours m x y < 4)"

subsection \<open>Comparing two cell arrays\<close>

text \<open>
  Two cells are alike when the scan cannot tell them apart: both or neither is
  \<open>PAPER\<close>, and both or neither is \<open>ACCESSIBLE_PAPER\<close>. The summary of a construction
  is its error, or the dimensions and the count of the map it built.
\<close>

definition alike :: "ObjType \<Rightarrow> ObjType \<Rightarrow> bool" where
  "alike c' c = ((c' = PAPER) = (c = PAPER) \<and> (c' = ACCESSIBLE_PAPER) = (c = ACCESSIBLE_PAPER))"

definition summary :: "error + Map \<Rightarrow> error + (u32 \<times> u32 \<times> u32)" where
  "summary r = map_sum id (\<lambda>m. (m_width m, m_height m, m_accessible_paper m)) r"

section \<open>Properties of the dial\<close>

lemmas dial_eval = set_position_def Dial_default_def transform_def is_valid_transform_def
  regex_match_def stoul_def decimal_def digit_value_def is_digit_def zero_passes_def
  passes_zero_def of_bool_u32_def

subsection \<open>Arithmetic of one step on 32-bit words\<close>

lemma unat_mod_100: "unat ((x :: u32) mod 100) = unat x mod 100"
  by (simp add: unat_mod)

lemma mod_100_less: "(x :: u32) mod 100 < 100"
  by (simp add: word_mod_less_divisor)

lemma unat_step_R:
  assumes "(p :: u32) < 100"
  shows "unat ((p + s mod 100) mod 100) = (unat p + unat s) mod 100"
proof -
  have p: "unat p < 100" using assms by (simp add: word_less_nat_alt)
  have "unat (p + s mod 100) = unat p + unat s mod 100"
    using p by (simp add: unat_word_ariths unat_mod_100)
  then show ?thesis by (simp add: unat_mod mod_add_right_eq)
qed

lemma int_back_step:
  assumes "(p :: nat) < 100"
  shows "int ((p + (100 - m mod 100)) mod 100) = (int p - int m) mod 100"
proof -
  define r where "r = m mod 100"
  have r: "r < 100" by (simp add: r_def)
  have "int ((p + (100 - r)) mod 100) = (int p - int r + 100) mod 100"
    using r by (simp add: zmod_int of_nat_diff algebra_simps)
  also have "\<dots> = (int p - int r) mod 100"
    by simp
  also have "\<dots> = (int p - int m) mod 100"
    unfolding r_def by (simp add: zmod_int mod_diff_right_eq)
  finally show ?thesis by (simp add: r_def)
qed

lemma unat_step_L:
  assumes "(p :: u32) < 100"
  shows "int (unat ((p + (100 - s mod 100)) mod 100)) = (int (unat p) - int (unat s)) mod 100"
proof -
  have p: "unat p < 100" using assms by (simp add: word_less_nat_alt)
  have r: "unat (s mod 100) = unat s mod 100" by (rule unat_mod_100)
  have "s mod 100 \<le> 100" using mod_100_less [of s] by simp
  then have "unat (100 - s mod 100) = 100 - unat s mod 100"
    by (simp add: unat_sub r)
  then have "unat (p + (100 - s mod 100)) = unat p + (100 - unat s mod 100)"
    using p by (simp add: unat_word_ariths)
  then have "unat ((p + (100 - s mod 100)) mod 100) = (unat p + (100 - unat s mod 100)) mod 100"
    by (simp add: unat_mod)
  then show ?thesis using int_back_step [OF p] by simp
qed

lemma add_100_mod:
  assumes "(p :: u32) < 100"
  shows "(p + 100) mod 100 = p"
proof -
  have p: "unat p < 100" using assms by (simp add: word_less_nat_alt)
  have "unat (p + 100) = unat p + 100"
    using p by (simp add: unat_word_ariths)
  then have "unat ((p + 100) mod 100) = unat p"
    using p by (simp add: unat_mod)
  then show ?thesis by (rule word_unat_eq_iff [THEN iffD2])
qed

lemma mod_100_id:
  assumes "(p :: u32) < 100"
  shows "p mod 100 = p"
  using assms by (simp add: word_mod_less_divisor mod_word_less)

lemma sub_nonzero:
  assumes "(p :: u32) < 100"
  shows "100 - p \<noteq> 0"
  using assms by auto

subsection \<open>Tokens\<close>

lemma regex_match_None_iff:
  "regex_match raw = None \<longleftrightarrow>
   \<not> (\<exists>c ds. raw = c # ds \<and> (c = CHR ''L'' \<or> c = CHR ''R'') \<and> ds \<noteq> []
          \<and> (\<forall>x \<in> set ds. is_digit x))"
  by (cases raw) (auto simp: regex_match_def list_all_iff)

lemma decimal_fits:
  "decimal ds < 2 ^ 32 \<Longrightarrow> unat (of_nat (decimal ds) :: u32) = decimal ds"
  by (simp add: unat_of_nat)

lemma is_valid_transform_Some:
  assumes "regex_match raw = Some (c, ds)" and "decimal ds < 2 ^ 32"
  shows "is_valid_transform raw =
           Inr \<lparr>is_valid = True, direction = (c = CHR ''R''), size_u32 = of_nat (decimal ds)\<rparr>"
proof -
  have "decimal ds < 2 ^ 64"
    using assms(2) by (rule less_trans) simp
  then show ?thesis
    using assms(1) by (simp add: is_valid_transform_def stoul_def)
qed

lemma transform_valid_position:
  assumes "is_valid_transform raw = Inr t" and "is_valid t"
  shows "\<exists>d'. transform raw d = Inr (m_position d', d') \<and>
           m_position d' =
             (m_position d + (if direction t then size_u32 t mod 100
                              else 100 - size_u32 t mod 100)) mod 100"
  using assms by (simp add: transform_def Let_def)



lemma zero_passes_magnitude_0:
  assumes "m_position d < 100"
  shows "zero_passes d \<lparr>is_valid = True, direction = b, size_u32 = 0\<rparr> = 0"
  using sub_nonzero [OF assms]
  by (simp add: zero_passes_def passes_zero_def of_bool_u32_def)

lemma transform_cases:
  assumes "m_position d < 100"
  shows "(transform raw d = Inl Terminated \<and> exceeds_unsigned_long raw)
         \<or> (\<exists>d'. transform raw d = Inr (m_position d', d') \<and> m_position d' < 100)"
  using assms
  by (auto simp: transform_def is_valid_transform_def exceeds_unsigned_long_def stoul_def Let_def
        word_mod_less_divisor split: option.splits)

lemma transform_vec_cases:
  assumes "m_position d < 100"
  shows "(transform_vec ts d = Inl Terminated \<and> (\<exists>t \<in> set ts. exceeds_unsigned_long t))
         \<or> (\<exists>d'. transform_vec ts d = Inr (m_position d', d') \<and> m_position d' < 100)"
  using assms
proof (induction ts arbitrary: d)
  case Nil
  then show ?case by simp
next
  case (Cons t ts)
  from transform_cases [OF Cons.prems, of t] show ?case
  proof
    assume "transform t d = Inl Terminated \<and> exceeds_unsigned_long t"
    then show ?thesis by simp
  next
    assume "\<exists>d'. transform t d = Inr (m_position d', d') \<and> m_position d' < 100"
    then obtain d' where step: "transform t d = Inr (m_position d', d')" and "m_position d' < 100"
      by blast
    from Cons.IH [OF this(2)] show ?thesis
      by (auto simp: step)
  qed
qed

lemma transform_returns_position:
  "transform raw d = Inr (p, d') \<Longrightarrow> p = m_position d'"
  by (auto simp: transform_def Let_def split: sum.splits if_splits)

lemma transform_vec_snoc:
  "transform_vec (xs @ [t]) d =
     (case transform_vec xs d of Inl e \<Rightarrow> Inl e | Inr (p, d') \<Rightarrow> transform t d')"
proof (induction xs arbitrary: d)
  case Nil
  show ?case
    by (cases "transform t d") (auto dest: transform_returns_position)
next
  case (Cons x xs)
  then show ?case by (cases "transform x d") auto
qed


lemma transform_vec_total:
  assumes "\<forall>t \<in> set ts. \<not> exceeds_unsigned_long t" and "m_position d < 100"
  shows "\<exists>d'. transform_vec ts d = Inr (m_position d', d') \<and> m_position d' < 100"
  using transform_vec_cases [OF assms(2), of ts] assms(1) by blast

subsection \<open>The claims about the dial\<close>

text \<open>
  C2. From position 0, the rotation \<^verbatim>\<open>L469\<close> and the rotation \<^verbatim>\<open>R469\<close> each leave the
  pass counter at 4 (the two checks \<^verbatim>\<open>verify_underflow_count\<close> and
  \<^verbatim>\<open>verify_overflow_count\<close>).
\<close>

theorem zero_pass_count_469:
  "transform ''L469'' (set_position 0 Dial_default)
     = Inr (31, \<lparr>m_zero_count = 0, m_passes_zero_count = 4, m_position = 31\<rparr>)
   \<and> transform ''R469'' (set_position 0 Dial_default)
     = Inr (69, \<lparr>m_zero_count = 0, m_passes_zero_count = 4, m_position = 69\<rparr>)"
  by (simp add: dial_eval)

text \<open>
  C3, as amended. For a token that matches the pattern, with letter \<open>c\<close> and a number
  below \<open>2^32\<close> (the width of \<^verbatim>\<open>Transform::size\<close>), applied at a position below 100,
  \<^verbatim>\<open>transform\<close> returns the new position, which is \<open>(p + m) mod 100\<close> for \<^verbatim>\<open>R\<close> and
  \<open>(p - m) mod 100\<close> for \<^verbatim>\<open>L\<close>.
\<close>

theorem transform_position:
  assumes "regex_match raw = Some (c, ds)" and "decimal ds < 2 ^ 32" and "m_position d < 100"
  shows "\<exists>d'. transform raw d = Inr (m_position d', d') \<and>
           int (unat (m_position d')) =
             (if c = CHR ''R'' then (int (unat (m_position d)) + int (decimal ds)) mod 100
              else (int (unat (m_position d)) - int (decimal ds)) mod 100)"
proof -
  let ?s = "of_nat (decimal ds) :: u32"
  let ?t = "\<lparr>is_valid = True, direction = (c = CHR ''R''), size_u32 = ?s\<rparr>"
  have s: "unat ?s = decimal ds" using assms(2) by (rule decimal_fits)
  have v: "is_valid_transform raw = Inr ?t"
    using assms(1,2) by (rule is_valid_transform_Some)
  from transform_valid_position [OF v, of d]
  obtain d' where run: "transform raw d = Inr (m_position d', d')"
    and pos: "m_position d' =
      (m_position d + (if c = CHR ''R'' then ?s mod 100 else 100 - ?s mod 100)) mod 100"
    by auto
  have "int (unat (m_position d')) =
          (if c = CHR ''R'' then (int (unat (m_position d)) + int (decimal ds)) mod 100
           else (int (unat (m_position d)) - int (decimal ds)) mod 100)"
  proof (cases "c = CHR ''R''")
    case True
    then have "m_position d' = (m_position d + ?s mod 100) mod 100"
      using pos by simp
    then have "unat (m_position d') = (unat (m_position d) + decimal ds) mod 100"
      using unat_step_R [OF assms(3), of ?s] s by simp
    then have "int (unat (m_position d')) = int ((unat (m_position d) + decimal ds) mod 100)"
      by (rule arg_cong)
    then show ?thesis using True by (simp add: zmod_int)
  next
    case False
    then have "m_position d' = (m_position d + (100 - ?s mod 100)) mod 100"
      using pos by simp
    then have "int (unat (m_position d')) = (int (unat (m_position d)) - int (decimal ds)) mod 100"
      using unat_step_L [OF assms(3), of ?s] s by (simp only:)
    then show ?thesis using False by simp
  qed
  with run show ?thesis by blast
qed

theorem transform_position_witness:
  "regex_match ''L68'' = Some (CHR ''L'', ''68'') \<and> decimal ''68'' < 2 ^ 32
   \<and> m_position Dial_default < 100
   \<and> (\<exists>d'. transform ''L68'' Dial_default = Inr (m_position d', d') \<and>
         int (unat (m_position d'))
           = (int (unat (m_position Dial_default)) + - int (decimal ''68'')) mod 100)"
proof -
  have a: "regex_match ''L68'' = Some (CHR ''L'', ''68'')"
    by (simp add: regex_match_def is_digit_def)
  have b: "decimal ''68'' < 2 ^ 32" by (simp add: decimal_def digit_value_def)
  have c: "m_position Dial_default < 100" by (simp add: Dial_default_def)
  show ?thesis using a b c transform_position [OF a b c] by simp
qed

text \<open>
  C3 as stated fails where the number of the token needs more than 32 bits: the token
  \<^verbatim>\<open>R4294967296\<close> matches the pattern, the cast to \<^verbatim>\<open>std::uint32_t\<close> leaves size 0, and
  the dial stays at 50, while \<open>(50 + 4294967296) mod 100 = 46\<close>.
\<close>

theorem transform_truncates_magnitude:
  "regex_match ''R4294967296'' = Some (CHR ''R'', ''4294967296'')
   \<and> decimal ''4294967296'' = 4294967296
   \<and> transform ''R4294967296'' Dial_default = Inr (50, Dial_default)
   \<and> (int (unat (m_position Dial_default)) + int (decimal ''4294967296'')) mod 100 = 46"
  by (simp add: dial_eval)

text \<open>
  C4, as amended. Take any sequence of tokens, matching the pattern or not, in which no
  token that matches the pattern has a number of \<open>2^64\<close> or more. Starting from the
  default dial, the run over the first \<open>n\<close> tokens (so after every rotation, and at the
  end) yields a dial whose position is below 100. That dial is the default dial for
  \<open>n = 0\<close>, and the run over one more token is \<^verbatim>\<open>transform\<close> of that token on it.
\<close>

theorem position_in_range:
  assumes "\<forall>t \<in> set ts. \<not> exceeds_unsigned_long t"
  shows "\<exists>d. transform_vec (take n ts) Dial_default = Inr (m_position d, d)
             \<and> m_position d < 100
             \<and> (n = 0 \<longrightarrow> d = Dial_default)
             \<and> (n < length ts \<longrightarrow>
                  transform_vec (take (Suc n) ts) Dial_default = transform (ts ! n) d)"
proof -
  have "\<forall>t \<in> set (take n ts). \<not> exceeds_unsigned_long t"
    using assms by (auto dest: in_set_takeD)
  moreover have "m_position Dial_default < 100" by (simp add: Dial_default_def)
  ultimately obtain d where run: "transform_vec (take n ts) Dial_default = Inr (m_position d, d)"
    and pos: "m_position d < 100"
    using transform_vec_total by blast
  have start: "d = Dial_default" if "n = 0"
    using that run by simp
  have "transform_vec (take (Suc n) ts) Dial_default = transform (ts ! n) d" if "n < length ts"
    using that run by (simp add: take_Suc_conv_app_nth transform_vec_snoc)
  with run pos start show ?thesis by blast
qed

theorem position_in_range_witness:
  "exceeds_unsigned_long ''L68'' = False \<and> exceeds_unsigned_long ''Q7'' = False
   \<and> exceeds_unsigned_long ''R48'' = False
   \<and> transform_vec (take 2 [''L68'', ''Q7'', ''R48'']) Dial_default
       = Inr (82, \<lparr>m_zero_count = 0, m_passes_zero_count = 1, m_position = 82\<rparr>)
   \<and> (82 :: u32) < 100
   \<and> transform_vec (take 3 [''L68'', ''Q7'', ''R48'']) Dial_default
       = Inr (30, \<lparr>m_zero_count = 0, m_passes_zero_count = 2, m_position = 30\<rparr>)"
proof -
  have h: "\<forall>t \<in> set [''L68'', ''Q7'', ''R48'']. \<not> exceeds_unsigned_long t"
    by (simp add: exceeds_unsigned_long_def regex_match_def is_digit_def decimal_def
          digit_value_def)
  have e: "exceeds_unsigned_long ''L68'' = False" "exceeds_unsigned_long ''Q7'' = False"
    "exceeds_unsigned_long ''R48'' = False"
    using h by simp_all
  show ?thesis
    using e position_in_range [OF h, of 2]
    by (simp add: dial_eval)
qed

text \<open>
  C4 as stated fails for a sequence that holds a token such as
  \<^verbatim>\<open>R18446744073709551616\<close>: it matches the pattern, its number is \<open>2^64\<close>,
  \<^verbatim>\<open>std::stoul\<close> throws inside the \<^verbatim>\<open>noexcept\<close> function and the program ends, so
  that no position is left to read.
\<close>

theorem oversized_token_terminates:
  "regex_match ''R18446744073709551616'' = Some (CHR ''R'', ''18446744073709551616'')
   \<and> decimal ''18446744073709551616'' = 2 ^ 64
   \<and> transform_vec [''R18446744073709551616''] Dial_default = Inl Terminated"
  by (simp add: dial_eval)



text \<open>
  C6, as amended. A token that matches the pattern with the number 0, applied at a
  position below 100, leaves the position and the pass counter as they were. The landing
  counter is left as it was when the position is not 0, and is incremented when the
  position is 0: the dial is then left pointing at 0 after a rotation.
\<close>

theorem zero_rotation:
  assumes "regex_match raw = Some (c, ds)" and "decimal ds = 0" and "m_position d < 100"
  shows "transform raw d =
           Inr (m_position d,
                if m_position d = 0 then d\<lparr>m_zero_count := m_zero_count d + 1\<rparr> else d)"
proof -
  have "decimal ds < 2 ^ 32" using assms(2) by simp
  with assms(1)
  have v: "is_valid_transform raw =
             Inr \<lparr>is_valid = True, direction = (c = CHR ''R''), size_u32 = 0\<rparr>"
    using is_valid_transform_Some [of raw c ds] assms(2) by simp
  show ?thesis
    using zero_passes_magnitude_0 [OF assms(3)] add_100_mod [OF assms(3)] mod_100_id [OF assms(3)]
    by (simp add: transform_def v Let_def)
qed

theorem zero_rotation_witness:
  "regex_match ''L0'' = Some (CHR ''L'', ''0'') \<and> decimal ''0'' = 0
   \<and> m_position Dial_default < 100
   \<and> transform ''L0'' Dial_default = Inr (50, Dial_default)"
proof -
  have a: "regex_match ''L0'' = Some (CHR ''L'', ''0'')"
    by (simp add: regex_match_def is_digit_def)
  have b: "decimal ''0'' = 0" by (simp add: decimal_def digit_value_def)
  have c: "m_position Dial_default < 100" by (simp add: Dial_default_def)
  show ?thesis using a b c zero_rotation [OF a b c] by (simp add: Dial_default_def)
qed

text \<open>
  C6 as stated fails at position 0: the rotation \<^verbatim>\<open>R0\<close> leaves the dial at 0 and the
  landing counter goes from 0 to 1.
\<close>

theorem zero_rotation_at_zero_counts_landing:
  "m_zero_count (set_position 0 Dial_default) = 0
   \<and> transform ''R0'' (set_position 0 Dial_default)
       = Inr (0, \<lparr>m_zero_count = 1, m_passes_zero_count = 0, m_position = 0\<rparr>)"
  by (simp add: dial_eval)

text \<open>
  C10. The ten tokens of \<^verbatim>\<open>verify\<close>, applied to the default dial (position 50), leave
  the positions 82, 52, 0, 95, 55, 0, 99, 0, 14, 32 in that order, and a landing counter
  of 3.
\<close>

theorem verify_sequence:
  "positions_after
     [''L68'', ''L30'', ''R48'', ''L5'', ''R60'', ''L55'', ''L1'', ''L99'', ''R14'', ''L82'']
     Dial_default
   = Inr ([82, 52, 0, 95, 55, 0, 99, 0, 14, 32],
          \<lparr>m_zero_count = 3, m_passes_zero_count = 6, m_position = 32\<rparr>)"
  by (simp add: dial_eval)

section \<open>Properties of the map\<close>

subsection \<open>Renaming characters that are neither whitespace nor paper\<close>

lemma split_from_map:
  assumes "\<And>c. (f c = sep) = (c = sep)"
  shows "split_from sep (map f piece) (map f cs) = map (map f) (split_from sep piece cs)"
proof (induction cs arbitrary: piece)
  case Nil
  show ?case by (simp add: rev_map)
next
  case (Cons c cs)
  show ?case
  proof (cases "c = sep")
    case True
    then have "f c = sep" using assms by simp
    then show ?thesis using True Cons.IH [of "[]"] by (simp add: rev_map)
  next
    case False
    then have "f c \<noteq> sep" using assms by simp
    then show ?thesis using False Cons.IH [of "c # piece"] by simp
  qed
qed

lemma split_map:
  assumes "\<And>c. (f c = sep) = (c = sep)"
  shows "split sep (map f s) = map (map f) (split sep s)"
  using split_from_map [OF assms, of "[]" s] by (simp add: split_def)

lemma line_lengths_map:
  "map (\<lambda>rng. of_nat (length rng) :: u32) (filter (\<lambda>rng. length rng \<noteq> 0) (map (map f) xs))
   = map (\<lambda>rng. of_nat (length rng)) (filter (\<lambda>rng. length rng \<noteq> 0) xs)"
  by (induction xs) auto

lemma filter_isspace_map:
  assumes "\<And>c. isspace (f c) = isspace c"
  shows "filter isspace (map f s) = map f (filter isspace s)"
  by (induction s) (auto simp: assms)

lemma filter_not_isspace_map:
  assumes "\<And>c. isspace (f c) = isspace c"
  shows "filter (\<lambda>c. \<not> isspace c) (map f s) = map f (filter (\<lambda>c. \<not> isspace c) s)"
  by (induction s) (auto simp: assms)

lemma fold_count_map:
  "fold (\<lambda>c sum. sum + 1) (map f xs) (z :: u32) = fold (\<lambda>c sum. sum + 1) xs z"
  by (induction xs arbitrary: z) auto

lemma measure_dimensions_map:
  assumes sp: "\<And>c. isspace (f c) = isspace c" and nl: "\<And>c. (f c = newline) = (c = newline)"
  shows "measure_dimensions (map f data) = measure_dimensions data"
proof (cases "data = []")
  case True
  then show ?thesis by simp
next
  case False
  then have l: "last (map f data) = f (last data)" by (simp add: last_map)
  show ?thesis
    unfolding measure_dimensions_def
    by (simp only: l nl filter_isspace_map [of f, OF sp] fold_count_map split_map [of f, OF nl]
          line_lengths_map map_is_Nil_conv)
qed

lemma obj_of_char_PAPER: "(obj_of_char c = PAPER) = (c = CHR ''@'')"
  by (simp add: obj_of_char_def)

lemma obj_of_char_INVALID:
  "(obj_of_char c = INVALID) = (c \<noteq> CHR ''.'' \<and> c \<noteq> CHR ''@'')"
  by (simp add: obj_of_char_def)

lemma obj_of_char_not_ACCESSIBLE: "obj_of_char c \<noteq> ACCESSIBLE_PAPER"
  by (simp add: obj_of_char_def)

lemma alike_obj_of_char:
  assumes "(f c = CHR ''@'') = (c = CHR ''@'')"
  shows "alike (obj_of_char (f c)) (obj_of_char c)"
  using assms by (simp add: alike_def obj_of_char_PAPER obj_of_char_not_ACCESSIBLE)

lemma initialise_map_map:
  assumes sp: "\<And>c. isspace (f c) = isspace c" and at: "\<And>c. (f c = CHR ''@'') = (c = CHR ''@'')"
  shows "rel_sum (=) (list_all2 alike) (initialise_map w h (map f data)) (initialise_map w h data)"
proof -
  have "list_all2 alike (map obj_of_char (map f xs)) (map obj_of_char xs)" for xs
    by (induction xs) (simp_all add: alike_obj_of_char at)
  then show ?thesis
    by (simp add: initialise_map_def filter_not_isspace_map [of f, OF sp])
qed

lemma for_each_rel:
  assumes body: "\<And>x s' s. R s' s \<Longrightarrow> rel_sum (=) R (body' x s') (body x s)"
    and start: "R s0' s0"
  shows "rel_sum (=) R (for_each body' xs s0') (for_each body xs s0)"
  using start
proof (induction xs arbitrary: s0' s0)
  case Nil
  then show ?case by simp
next
  case (Cons x xs)
  from body [OF Cons.prems, of x] show ?case
    by (cases "body' x s0'"; cases "body x s0") (auto intro: Cons.IH)
qed

lemma m_map_subscript_alike:
  assumes "list_all2 alike (m_map m') (m_map m)"
  shows "rel_sum (=) alike (m_map_subscript m' i j) (m_map_subscript m i j)"
  using assms
  by (auto simp: m_map_subscript_def dest: list_all2_lengthD list_all2_nthD)

lemma is_paper_alike:
  assumes "list_all2 alike (m_map m') (m_map m)"
  shows "is_paper m' i j = is_paper m i j"
  using m_map_subscript_alike [OF assms, of i j]
  by (cases "m_map_subscript m' i j"; cases "m_map_subscript m i j")
     (auto simp: is_paper_def and_then_def alike_def)

lemma keep_if_paper_alike:
  assumes "list_all2 alike (m_map m') (m_map m)"
  shows "keep_if_paper m' n i j bits = keep_if_paper m n i j bits"
  by (simp add: keep_if_paper_def is_paper_alike [OF assms])

lemma at_alike:
  assumes "m_width m' = m_width m" and "m_height m' = m_height m"
    and "list_all2 alike (m_map m') (m_map m)"
  shows "rel_sum (=) alike (at m' i j) (at m i j)"
  using assms
  by (auto simp: at_def Let_def dest: list_all2_lengthD list_all2_nthD)

lemma is_accessible_paper_alike:
  assumes w: "m_width m' = m_width m" and h: "m_height m' = m_height m"
    and cells: "list_all2 alike (m_map m') (m_map m)"
  shows "is_accessible_paper m' i j = is_accessible_paper m i j"
  using at_alike [OF assms, of i j]
  unfolding is_accessible_paper_def keep_if_paper_alike [OF cells] w h
  by (cases "at m' i j"; cases "at m i j") (auto simp: and_then_def alike_def)

lemma process_cell_alike:
  assumes w: "m_width m' = m_width m" and h: "m_height m' = m_height m"
    and cells: "list_all2 alike (m_map m') (m_map m)"
    and acc: "list_all2 alike acc' acc"
  shows "rel_sum (=) (list_all2 alike) (process_cell m' i j acc') (process_cell m i j acc)"
proof (cases "is_accessible_paper m i j")
  case (Inl e)
  then show ?thesis
    by (simp add: process_cell_def is_accessible_paper_alike [OF w h cells] and_then_def)
next
  case (Inr accessible)
  have len: "length acc' = length acc" using acc by (rule list_all2_lengthD)
  have upd: "list_all2 alike (acc'[k := v']) (acc[k := v])" if "alike v' v" for k v' v
    using acc that by (rule list_all2_update_cong)
  show ?thesis
  proof (cases accessible)
    case True
    have "alike ACCESSIBLE_PAPER ACCESSIBLE_PAPER" by (simp add: alike_def)
    then show ?thesis
      using Inr True upd len
      by (simp add: process_cell_def is_accessible_paper_alike [OF w h cells] and_then_def w Let_def)
  next
    case False
    from m_map_subscript_alike [OF cells, of i j] show ?thesis
      using Inr False upd len
      by (cases "m_map_subscript m' i j"; cases "m_map_subscript m i j")
         (simp_all add: process_cell_def is_accessible_paper_alike [OF w h cells] and_then_def w
            Let_def)
  qed
qed

lemma process_map_alike:
  assumes w: "m_width m' = m_width m" and h: "m_height m' = m_height m"
    and cells: "list_all2 alike (m_map m') (m_map m)"
  shows "rel_sum (=) (list_all2 alike) (process_map m') (process_map m)"
proof -
  have len: "length (m_map m') = length (m_map m)" using cells by (rule list_all2_lengthD)
  have start: "list_all2 alike (replicate n NONE) (replicate n NONE)" for n
    by (simp add: list_all2_conv_all_nth alike_def)
  have inner: "rel_sum (=) (list_all2 alike)
                 (for_each (\<lambda>j. process_cell m' i j) js acc')
                 (for_each (\<lambda>j. process_cell m i j) js acc)"
    if "list_all2 alike acc' acc" for i js acc' acc
    using that by (intro for_each_rel process_cell_alike [OF w h cells])
  show ?thesis
    unfolding process_map_def w h len
    by (rule for_each_rel [where R = "list_all2 alike"]) (rule inner, assumption, rule start)
qed

lemma count_accessible_alike:
  assumes "list_all2 alike acc' acc"
  shows "count_accessible acc' = count_accessible acc"
proof -
  have "foldl (\<lambda>sum type. sum + of_bool_u32 (type = ACCESSIBLE_PAPER)) z acc'
        = foldl (\<lambda>sum type. sum + of_bool_u32 (type = ACCESSIBLE_PAPER)) z acc" for z
    using assms by (induction arbitrary: z rule: list_all2_induct) (simp_all add: alike_def)
  then show ?thesis by (simp add: count_accessible_def)
qed

lemma Map_of_string_map:
  assumes sp: "\<And>c. isspace (f c) = isspace c" and nl: "\<And>c. (f c = newline) = (c = newline)"
    and at: "\<And>c. (f c = CHR ''@'') = (c = CHR ''@'')"
  shows "summary (Map_of_string (map f data)) = summary (Map_of_string data)"
proof (cases "measure_dimensions data")
  case (Inl e)
  then show ?thesis
    by (simp add: Map_of_string_def measure_dimensions_map [of f, OF sp nl] and_then_def)
next
  case (Inr dimensions)
  note md = Inr
  let ?w = "fst dimensions" and ?h = "snd dimensions"
  from initialise_map_map [of f, OF sp at, of ?w ?h data] show ?thesis
  proof (cases rule: rel_sum.cases)
    case (1 e' e)
    then show ?thesis
      by (simp add: Map_of_string_def measure_dimensions_map [of f, OF sp nl] md and_then_def)
  next
    case (2 cells' cells)
    let ?m' = "\<lparr>m_width = ?w, m_height = ?h, m_map = cells',
                 m_accessible_map = [], m_accessible_paper = 0\<rparr>"
    let ?m = "\<lparr>m_width = ?w, m_height = ?h, m_map = cells,
                m_accessible_map = [], m_accessible_paper = 0\<rparr>"
    have "rel_sum (=) (list_all2 alike) (process_map ?m') (process_map ?m)"
      using 2 by (intro process_map_alike) simp_all
    then show ?thesis
    proof (cases rule: rel_sum.cases)
      case (1 e' e)
      then show ?thesis
        using 2
        by (simp add: Map_of_string_def measure_dimensions_map [of f, OF sp nl] md and_then_def
              summary_def)
    next
      case inner: (2 acc' acc)
      then show ?thesis
        using 2 count_accessible_alike [of acc' acc]
        by (simp add: Map_of_string_def measure_dimensions_map [of f, OF sp nl] md and_then_def
              summary_def)
    qed
  qed
qed

lemma Map_of_string_cells:
  assumes "Map_of_string data = Inr m"
  shows "m_map m = map obj_of_char (filter (\<lambda>c. \<not> isspace c) data)"
  using assms
  by (auto simp: Map_of_string_def and_then_def initialise_map_def Let_def
        split: sum.splits if_splits)

subsection \<open>The claims about the map\<close>

text \<open>
  The part of C1 that the code keeps: a cell inside the grid that is not paper is never
  accessible.
\<close>

lemma is_accessible_paper_unmarked:
  "at m i j = Inr c \<Longrightarrow> c \<noteq> PAPER \<Longrightarrow> is_accessible_paper m i j = Inr False"
  by (simp add: is_accessible_paper_def and_then_def)

text \<open>
  C1 says that a marked cell is accessible exactly when fewer than 4 of its neighbours
  inside the grid are marked. The code does not do that. In the grid of the three rows
  \<^verbatim>\<open>.@.\<close>, \<^verbatim>\<open>@@@\<close>, \<^verbatim>\<open>@..\<close> the middle cell (1, 1) is marked and four of its eight
  neighbours are marked, so it is not accessible as the specification words it, but
  \<^verbatim>\<open>is_accessible_paper\<close> returns true: the mask starts from the decimal literal
  11111111, whose low 8 bits are 11000111, so the neighbours 3, 4 and 5 are never
  counted, and the neighbours that are counted are read with \<^verbatim>\<open>m_map[i, j]\<close>.
\<close>

theorem is_accessible_paper_misses_neighbours:
  "Map_of_string (''.@.'' @ [newline] @ ''@@@'' @ [newline] @ ''@..'' @ [newline])
     = Inr \<lparr>m_width = 3, m_height = 3,
            m_map = [NONE, PAPER, NONE, PAPER, PAPER, PAPER, PAPER, NONE, NONE],
            m_accessible_map = [NONE, ACCESSIBLE_PAPER, NONE, ACCESSIBLE_PAPER,
                                ACCESSIBLE_PAPER, ACCESSIBLE_PAPER, ACCESSIBLE_PAPER, NONE, NONE],
            m_accessible_paper = 5\<rparr>
   \<and> is_accessible_paper
        \<lparr>m_width = 3, m_height = 3,
         m_map = [NONE, PAPER, NONE, PAPER, PAPER, PAPER, PAPER, NONE, NONE],
         m_accessible_map = [NONE, ACCESSIBLE_PAPER, NONE, ACCESSIBLE_PAPER,
                             ACCESSIBLE_PAPER, ACCESSIBLE_PAPER, ACCESSIBLE_PAPER, NONE, NONE],
         m_accessible_paper = 5\<rparr> 1 1 = Inr True
   \<and> spec_marked_neighbours
        \<lparr>m_width = 3, m_height = 3,
         m_map = [NONE, PAPER, NONE, PAPER, PAPER, PAPER, PAPER, NONE, NONE],
         m_accessible_map = [NONE, ACCESSIBLE_PAPER, NONE, ACCESSIBLE_PAPER,
                             ACCESSIBLE_PAPER, ACCESSIBLE_PAPER, ACCESSIBLE_PAPER, NONE, NONE],
         m_accessible_paper = 5\<rparr> 1 1 = 4
   \<and> \<not> spec_is_accessible
        \<lparr>m_width = 3, m_height = 3,
         m_map = [NONE, PAPER, NONE, PAPER, PAPER, PAPER, PAPER, NONE, NONE],
         m_accessible_map = [NONE, ACCESSIBLE_PAPER, NONE, ACCESSIBLE_PAPER,
                             ACCESSIBLE_PAPER, ACCESSIBLE_PAPER, ACCESSIBLE_PAPER, NONE, NONE],
         m_accessible_paper = 5\<rparr> 1 1"
  by code_simp

text \<open>
  C7, as amended. For every map and every coordinate with \<open>i \<ge> width\<close> or
  \<open>j \<ge> height\<close>, \<^verbatim>\<open>at\<close> and \<^verbatim>\<open>is_accessible_paper\<close> fail with \<^verbatim>\<open>std::out_of_range\<close>.
  \<^verbatim>\<open>is_paper\<close> has no bounds check and never fails with that exception.
\<close>

theorem out_of_range_queries:
  assumes "i \<ge> m_width m \<or> j \<ge> m_height m"
  shows "at m i j = Inl OutOfRange
         \<and> is_accessible_paper m i j = Inl OutOfRange
         \<and> is_paper m i j \<noteq> Inl OutOfRange"
proof -
  have a: "at m i j = Inl OutOfRange"
    using assms by (auto simp: at_def)
  have b: "is_paper m i j \<noteq> Inl OutOfRange"
    by (simp add: is_paper_def m_map_subscript_def and_then_def)
  show ?thesis
    using a b by (simp add: is_accessible_paper_def and_then_def)
qed

theorem out_of_range_queries_witness:
  "(2 :: u32) \<ge> m_width \<lparr>m_width = 2, m_height = 2, m_map = [PAPER, PAPER, PAPER, PAPER],
        m_accessible_map = [ACCESSIBLE_PAPER, ACCESSIBLE_PAPER, ACCESSIBLE_PAPER, ACCESSIBLE_PAPER],
        m_accessible_paper = 4\<rparr>
   \<and> is_accessible_paper \<lparr>m_width = 2, m_height = 2, m_map = [PAPER, PAPER, PAPER, PAPER],
        m_accessible_map = [ACCESSIBLE_PAPER, ACCESSIBLE_PAPER, ACCESSIBLE_PAPER, ACCESSIBLE_PAPER],
        m_accessible_paper = 4\<rparr> 2 0 = Inl OutOfRange"
  using out_of_range_queries [of "\<lparr>m_width = 2, m_height = 2, m_map = [PAPER, PAPER, PAPER, PAPER],
        m_accessible_map = [ACCESSIBLE_PAPER, ACCESSIBLE_PAPER, ACCESSIBLE_PAPER, ACCESSIBLE_PAPER],
        m_accessible_paper = 4\<rparr>" 2 0]
  by simp

text \<open>
  C7 as stated fails for \<^verbatim>\<open>is_paper\<close>: on the grid of two rows \<^verbatim>\<open>@@\<close>, queried at
  \<open>i = width = 2\<close>, it returns a value.
\<close>

theorem is_paper_unchecked:
  "Map_of_string (''@@'' @ [newline] @ ''@@'' @ [newline])
     = Inr \<lparr>m_width = 2, m_height = 2, m_map = [PAPER, PAPER, PAPER, PAPER],
        m_accessible_map = [ACCESSIBLE_PAPER, ACCESSIBLE_PAPER, ACCESSIBLE_PAPER, ACCESSIBLE_PAPER],
        m_accessible_paper = 4\<rparr>
   \<and> is_paper \<lparr>m_width = 2, m_height = 2, m_map = [PAPER, PAPER, PAPER, PAPER],
        m_accessible_map = [ACCESSIBLE_PAPER, ACCESSIBLE_PAPER, ACCESSIBLE_PAPER, ACCESSIBLE_PAPER],
        m_accessible_paper = 4\<rparr> 2 0 = Inr True"
  by code_simp

text \<open>
  C8, as amended. Construction has no check for \<open>INVALID\<close> cells. Whenever it succeeds,
  the cell array holds one cell for each character that is not whitespace, \<open>INVALID\<close>
  for a character other than \<^verbatim>\<open>.\<close> and \<^verbatim>\<open>@\<close>. And a character outside the alphabet
  is never the reason of a failure: renaming characters in a way that keeps whitespace,
  newlines and \<^verbatim>\<open>@\<close> as they are (so renaming such a character to \<^verbatim>\<open>.\<close>) changes
  neither the failure of construction, nor the dimensions, nor the accessible count.
\<close>

theorem invalid_characters_are_cells:
  assumes "\<forall>c. isspace (f c) = isspace c" and "\<forall>c. (f c = newline) = (c = newline)"
    and "\<forall>c. (f c = CHR ''@'') = (c = CHR ''@'')"
  shows "summary (Map_of_string (map f data)) = summary (Map_of_string data)
         \<and> (\<forall>m. Map_of_string data = Inr m \<longrightarrow>
                m_map m = map obj_of_char (filter (\<lambda>c. \<not> isspace c) data))"
  using assms by (simp add: Map_of_string_map Map_of_string_cells)

theorem invalid_characters_are_cells_witness:
  "(\<forall>c. isspace (if c = CHR ''x'' then CHR ''.'' else c) = isspace c)
   \<and> (\<forall>c. ((if c = CHR ''x'' then CHR ''.'' else c) = newline) = (c = newline))
   \<and> (\<forall>c. ((if c = CHR ''x'' then CHR ''.'' else c) = CHR ''@'') = (c = CHR ''@''))
   \<and> Map_of_string (''x@'' @ [newline] @ ''@@'' @ [newline])
       = Inr \<lparr>m_width = 2, m_height = 2, m_map = [INVALID, PAPER, PAPER, PAPER],
              m_accessible_map = [INVALID, ACCESSIBLE_PAPER, ACCESSIBLE_PAPER, ACCESSIBLE_PAPER],
              m_accessible_paper = 3\<rparr>
   \<and> summary (Map_of_string (map (\<lambda>c. if c = CHR ''x'' then CHR ''.'' else c)
                 (''x@'' @ [newline] @ ''@@'' @ [newline])))
       = Inr (2, 2, 3)
   \<and> [INVALID, PAPER, PAPER, PAPER]
       = map obj_of_char (filter (\<lambda>c. \<not> isspace c) (''x@'' @ [newline] @ ''@@'' @ [newline]))"
proof -
  let ?f = "\<lambda>c. if c = CHR ''x'' then CHR ''.'' else c"
  let ?data = "''x@'' @ [newline] @ ''@@'' @ [newline]"
  let ?m = "\<lparr>m_width = 2, m_height = 2, m_map = [INVALID, PAPER, PAPER, PAPER],
             m_accessible_map = [INVALID, ACCESSIBLE_PAPER, ACCESSIBLE_PAPER, ACCESSIBLE_PAPER],
             m_accessible_paper = 3\<rparr>"
  have h1: "\<forall>c. isspace (?f c) = isspace c" by (simp add: isspace_def)
  have h2: "\<forall>c. (?f c = newline) = (c = newline)" by (simp add: newline_def)
  have h3: "\<forall>c. (?f c = CHR ''@'') = (c = CHR ''@'')" by simp
  have run: "Map_of_string ?data = Inr ?m" by code_simp
  have sm: "summary (Inr ?m) = Inr (2, 2, 3)" by (simp add: summary_def)
  have cells: "m_map ?m = [INVALID, PAPER, PAPER, PAPER]" by simp
  from invalid_characters_are_cells [of ?f ?data, OF h1 h2 h3]
  have "summary (Map_of_string (map ?f ?data)) = Inr (2, 2, 3)"
    and "[INVALID, PAPER, PAPER, PAPER] = map obj_of_char (filter (\<lambda>c. \<not> isspace c) ?data)"
    using run sm cells by (simp_all only:)
  with h1 h2 h3 run show ?thesis by (simp only: simp_thms)
qed

text \<open>
  C8 as stated fails: the text of two rows \<^verbatim>\<open>xx\<close> is constructed into a map of four
  \<open>INVALID\<close> cells.
\<close>

theorem invalid_cell_accepted:
  "Map_of_string (''xx'' @ [newline] @ ''xx'' @ [newline])
     = Inr \<lparr>m_width = 2, m_height = 2, m_map = [INVALID, INVALID, INVALID, INVALID],
        m_accessible_map = [INVALID, INVALID, INVALID, INVALID],
        m_accessible_paper = 0\<rparr>"
  by code_simp

text \<open>
  C9 says that the 10 by 10 test grid of the source has 13 accessible rolls, the value
  \<^verbatim>\<open>test_problem_1\<close> asserts. The constructor counts 52.
\<close>

theorem test_input_accessible_paper:
  "map_sum id m_accessible_paper (Map_of_string test_input) = Inr 52 \<and> test_result_1 = 13"
  by code_simp

end
